theory Spec2Isabelle
  imports Complex_Main "HOL-Library.Word"
begin

section \<open>Static RLN group manager and message helpers of go-waku\<close>

text \<open>
  A shallow embedding of \<^verbatim>\<open>waku/v2/protocol/rln/group_manager/static/static.go\<close>
  (the static group manager) and of the helpers of package \<^verbatim>\<open>rln\<close> that turn a
  Waku message into an RLN signal and an RLN proof.

  Go values are modelled as follows.
  \<^item> \<^verbatim>\<open>byte\<close> is an 8-bit word, \<^verbatim>\<open>[]byte\<close> a list of them; a \<^verbatim>\<open>nil\<close> slice
    is the empty list (the code never compares a slice with \<^verbatim>\<open>nil\<close>).
  \<^item> \<^verbatim>\<open>uint\<close> and \<^verbatim>\<open>int\<close> are 64 bits wide; \<^verbatim>\<open>int(x)\<close> on a \<^verbatim>\<open>uint\<close>
    keeps the bits and reads them as two's complement (\<open>sint\<close>).
  \<^item> a pointer that may be \<^verbatim>\<open>nil\<close> is an \<open>option\<close>.
  \<^item> a returned \<^verbatim>\<open>error\<close> and a run-time panic are both values of the datatype
    \<open>error\<close>; the constructors whose names start with \<open>Panic\<close> are the panics.
  \<^item> the logger handed to the constructor is a valid logger; its calls have no effect
    on any value and are left out.
\<close>

subsection \<open>Types of the zerokit binding\<close>

type_synonym byte = "8 word"

text \<open>\<^verbatim>\<open>rln.IDCommitment\<close> is a fixed-size byte array, compared with \<^verbatim>\<open>!=\<close>.\<close>

type_synonym IDCommitment = "byte list"

text \<open>\<^verbatim>\<open>rln.MembershipIndex\<close> is Go's \<^verbatim>\<open>uint\<close>.\<close>

type_synonym MembershipIndex = "64 word"

text \<open>
  \<^verbatim>\<open>rln.IdentityCredential\<close>: the code of this package reads the field
  \<^verbatim>\<open>IDCommitment\<close> only; the secret part of the credential is kept as one field.
\<close>

record IdentityCredential =
  IDSecretHash :: "byte list"
  IDCommitment :: IDCommitment

subsection \<open>Errors\<close>

text \<open>
  \<open>MembershipMismatch\<close> is \<^verbatim>\<open>errors.New("peer's IDCommitment does not match commitment in group")\<close>,
  \<open>CredentialNotSetup\<close> is \<^verbatim>\<open>errors.New("identity credential has not been setup")\<close>,
  \<open>IndexNotSetup\<close> is \<^verbatim>\<open>errors.New("membership index has not been setup")\<close>,
  \<open>External x\<close> is an error \<open>x\<close> returned by the RLN instance or by the root tracker.
  \<open>PanicIndexOutOfRange\<close> and \<open>PanicNilDereference\<close> are run-time panics.
\<close>

datatype 'x error =
    MembershipMismatch
  | CredentialNotSetup
  | IndexNotSetup
  | External 'x
  | PanicIndexOutOfRange
  | PanicNilDereference

subsection \<open>The manager\<close>

type_synonym ref = nat

text \<open>
  \<^verbatim>\<open>StaticGroupManager\<close>. The fields \<open>rln\<close> and \<open>rootTracker\<close> are pointers to an
  RLN instance and to a Merkle root tracker; \<open>identityCredential\<close> and
  \<open>membershipIndex\<close> are pointers to a copy of the constructor's arguments.
\<close>

record StaticGroupManager =
  rln :: "ref option"
  identityCredential :: "IdentityCredential option"
  membershipIndex :: "MembershipIndex option"
  group :: "IDCommitment list"
  rootTracker :: "ref option"

text \<open>
  \<^verbatim>\<open>group[int(index)]\<close>: the index expression panics when the converted index is
  negative or not below \<^verbatim>\<open>len(group)\<close>; the comparison with the credential's
  commitment comes after it.
\<close>

definition NewStaticGroupManager ::
  "IDCommitment list \<Rightarrow> IdentityCredential \<Rightarrow> MembershipIndex \<Rightarrow> 'x error + StaticGroupManager"
where
  "NewStaticGroupManager grp cred index =
     (let i = sint index in
      if i < 0 \<or> int (length grp) \<le> i then Inl PanicIndexOutOfRange
      else if IDCommitment cred \<noteq> grp ! nat i then Inl MembershipMismatch
      else Inr \<lparr> rln = None,
                 identityCredential = Some cred,
                 membershipIndex = Some index,
                 group = grp,
                 rootTracker = None \<rparr>)"

definition IdentityCredentials :: "StaticGroupManager \<Rightarrow> 'x error + IdentityCredential" where
  "IdentityCredentials gm =
     (case identityCredential gm of
        None \<Rightarrow> Inl CredentialNotSetup
      | Some c \<Rightarrow> Inr c)"

definition MembershipIndex :: "StaticGroupManager \<Rightarrow> 'x error + MembershipIndex" where
  "MembershipIndex gm =
     (case membershipIndex gm of
        None \<Rightarrow> Inl IndexNotSetup
      | Some i \<Rightarrow> Inr i)"

text \<open>\<^verbatim>\<open>Stop\<close> does nothing.\<close>

definition Stop :: "StaticGroupManager \<Rightarrow> StaticGroupManager" where
  "Stop gm = gm"

subsection \<open>The RLN instance and the root tracker\<close>

text \<open>
  \<^verbatim>\<open>rln.RLN\<close> (the zerokit binding) and \<^verbatim>\<open>group_manager.MerkleRootTracker\<close> are
  reached through pointers and are mutated by their methods, so their states live in a
  store indexed by address. What their methods compute is not part of this package; the
  two methods called here are parameters of the model:
  \<^item> \<open>ins member e\<close> is \<^verbatim>\<open>InsertMember(member)\<close> on an RLN instance in state \<open>e\<close>:
    the returned error (\<open>None\<close> is \<^verbatim>\<open>nil\<close>) and the instance's new state;
  \<^item> \<open>sync es t\<close> is \<^verbatim>\<open>Sync()\<close> on a tracker in state \<open>t\<close>, which may read the RLN
    instances \<open>es\<close>: the returned error and the tracker's new state.
  A method called through a \<^verbatim>\<open>nil\<close> pointer dereferences it and panics.

  The store also keeps a log of the calls made, each with the error it returned,
  in the order they were made.
\<close>

datatype op = InsertOp ref IDCommitment | SyncOp ref

record ('e, 't, 'x) world =
  engines :: "ref \<Rightarrow> 'e"
  trackers :: "ref \<Rightarrow> 't"
  calls :: "(op \<times> 'x option) list"

definition rln_InsertMember ::
  "(IDCommitment \<Rightarrow> 'e \<Rightarrow> 'x option \<times> 'e) \<Rightarrow> ref option \<Rightarrow> IDCommitment \<Rightarrow>
   ('e, 't, 'x) world \<Rightarrow> 'x error option \<times> ('e, 't, 'x) world"
where
  "rln_InsertMember ins p member w =
     (case p of
        None \<Rightarrow> (Some PanicNilDereference, w)
      | Some r \<Rightarrow>
          (case ins member (engines w r) of
             (res, e') \<Rightarrow>
               (map_option External res,
                w\<lparr> engines := (engines w)(r := e'),
                   calls := calls w @ [(InsertOp r member, res)] \<rparr>)))"

definition rootTracker_Sync ::
  "((ref \<Rightarrow> 'e) \<Rightarrow> 't \<Rightarrow> 'x option \<times> 't) \<Rightarrow> ref option \<Rightarrow>
   ('e, 't, 'x) world \<Rightarrow> 'x error option \<times> ('e, 't, 'x) world"
where
  "rootTracker_Sync sync p w =
     (case p of
        None \<Rightarrow> (Some PanicNilDereference, w)
      | Some k \<Rightarrow>
          (case sync (engines w) (trackers w k) of
             (res, t') \<Rightarrow>
               (map_option External res,
                w\<lparr> trackers := (trackers w)(k := t'),
                   calls := calls w @ [(SyncOp k, res)] \<rparr>)))"

subsection \<open>Start and InsertMember\<close>

text \<open>The loop of \<^verbatim>\<open>Start\<close> over \<^verbatim>\<open>gm.group\<close>: insert, then sync, stop at the first error.\<close>

fun Start_loop ::
  "(IDCommitment \<Rightarrow> 'e \<Rightarrow> 'x option \<times> 'e) \<Rightarrow> ((ref \<Rightarrow> 'e) \<Rightarrow> 't \<Rightarrow> 'x option \<times> 't) \<Rightarrow>
   ref option \<Rightarrow> ref option \<Rightarrow> IDCommitment list \<Rightarrow>
   ('e, 't, 'x) world \<Rightarrow> 'x error option \<times> ('e, 't, 'x) world"
where
  "Start_loop ins sync rlnInstance tracker [] w = (None, w)"
| "Start_loop ins sync rlnInstance tracker (member # rest) w =
     (case rln_InsertMember ins rlnInstance member w of
        (Some err, w1) \<Rightarrow> (Some err, w1)
      | (None, w1) \<Rightarrow>
          (case rootTracker_Sync sync tracker w1 of
             (Some err, w2) \<Rightarrow> (Some err, w2)
           | (None, w2) \<Rightarrow> Start_loop ins sync rlnInstance tracker rest w2))"

text \<open>
  \<^verbatim>\<open>Start\<close> returns the error, the manager as the call leaves it and the store.
  The two pointers are stored in the manager before anything else happens; the group is
  set to \<^verbatim>\<open>nil\<close> only on the path that returns \<^verbatim>\<open>nil\<close>.
\<close>

definition Start ::
  "(IDCommitment \<Rightarrow> 'e \<Rightarrow> 'x option \<times> 'e) \<Rightarrow> ((ref \<Rightarrow> 'e) \<Rightarrow> 't \<Rightarrow> 'x option \<times> 't) \<Rightarrow>
   StaticGroupManager \<Rightarrow> ref option \<Rightarrow> ref option \<Rightarrow>
   ('e, 't, 'x) world \<Rightarrow> 'x error option \<times> StaticGroupManager \<times> ('e, 't, 'x) world"
where
  "Start ins sync gm rlnInstance tracker w =
     (let gm1 = gm\<lparr> rln := rlnInstance, rootTracker := tracker \<rparr> in
      case rootTracker_Sync sync tracker w of
        (Some err, w1) \<Rightarrow> (Some err, gm1, w1)
      | (None, w1) \<Rightarrow>
          (case Start_loop ins sync rlnInstance tracker (group gm1) w1 of
             (Some err, w2) \<Rightarrow> (Some err, gm1, w2)
           | (None, w2) \<Rightarrow> (None, gm1\<lparr> group := [] \<rparr>, w2)))"

definition InsertMember ::
  "(IDCommitment \<Rightarrow> 'e \<Rightarrow> 'x option \<times> 'e) \<Rightarrow> ((ref \<Rightarrow> 'e) \<Rightarrow> 't \<Rightarrow> 'x option \<times> 't) \<Rightarrow>
   StaticGroupManager \<Rightarrow> IDCommitment \<Rightarrow>
   ('e, 't, 'x) world \<Rightarrow> 'x error option \<times> ('e, 't, 'x) world"
where
  "InsertMember ins sync gm pubkey w =
     (case rln_InsertMember ins (rln gm) pubkey w of
        (Some err, w1) \<Rightarrow> (Some err, w1)
      | (None, w1) \<Rightarrow>
          (case rootTracker_Sync sync (rootTracker gm) w1 of
             (Some err, w2) \<Rightarrow> (Some err, w2)
           | (None, w2) \<Rightarrow> (None, w2)))"

subsection \<open>The calls a bootstrap is expected to make\<close>

text \<open>
  The order of calls as the specification words it: one sync of the root tracker, then
  for each member of the group, in order, an insert followed by a sync.
  \<open>succeeded\<close> marks each call of a list as having returned no error.
\<close>

definition member_calls :: "ref \<Rightarrow> ref \<Rightarrow> IDCommitment list \<Rightarrow> op list" where
  "member_calls r k ms = concat (map (\<lambda>m. [InsertOp r m, SyncOp k]) ms)"

definition bootstrap_calls :: "ref \<Rightarrow> ref \<Rightarrow> IDCommitment list \<Rightarrow> op list" where
  "bootstrap_calls r k ms = SyncOp k # member_calls r k ms"

definition succeeded :: "op list \<Rightarrow> (op \<times> 'x option) list" where
  "succeeded ops = map (\<lambda>c. (c, None)) ops"

fun is_insert :: "op \<times> 'x option \<Rightarrow> bool" where
  "is_insert (InsertOp r m, res) = True"
| "is_insert (SyncOp k, res) = False"

fun is_sync :: "op \<times> 'x option \<Rightarrow> bool" where
  "is_sync (InsertOp r m, res) = False"
| "is_sync (SyncOp k, res) = True"

text \<open>
  The store after one call, written with the two parameters alone: \<open>do_insert\<close> is
  the store after \<^verbatim>\<open>InsertMember(m)\<close> on the RLN instance at \<open>r\<close>, \<open>do_sync\<close> the
  store after \<^verbatim>\<open>Sync()\<close> on the tracker at \<open>k\<close>. Each sets the state of the instance
  or tracker to what the call left and appends the call, with the error it returned, to
  the log.
\<close>

definition do_insert ::
  "(IDCommitment \<Rightarrow> 'e \<Rightarrow> 'x option \<times> 'e) \<Rightarrow> ref \<Rightarrow> IDCommitment \<Rightarrow>
   ('e, 't, 'x) world \<Rightarrow> ('e, 't, 'x) world"
where
  "do_insert ins r m w =
     w\<lparr> engines := (engines w)(r := snd (ins m (engines w r))),
        calls := calls w @ [(InsertOp r m, fst (ins m (engines w r)))] \<rparr>"

definition do_sync ::
  "((ref \<Rightarrow> 'e) \<Rightarrow> 't \<Rightarrow> 'x option \<times> 't) \<Rightarrow> ref \<Rightarrow>
   ('e, 't, 'x) world \<Rightarrow> ('e, 't, 'x) world"
where
  "do_sync sync k w =
     w\<lparr> trackers := (trackers w)(k := snd (sync (engines w) (trackers w k))),
        calls := calls w @ [(SyncOp k, fst (sync (engines w) (trackers w k)))] \<rparr>"

text \<open>
  Making a list of calls one after the other on the store, each on the store the one
  before it left, and stopping at the first call that returns an error, which is the
  result.
\<close>

fun run_calls ::
  "(IDCommitment \<Rightarrow> 'e \<Rightarrow> 'x option \<times> 'e) \<Rightarrow> ((ref \<Rightarrow> 'e) \<Rightarrow> 't \<Rightarrow> 'x option \<times> 't) \<Rightarrow>
   op list \<Rightarrow> ('e, 't, 'x) world \<Rightarrow> 'x error option \<times> ('e, 't, 'x) world"
where
  "run_calls ins sync [] w = (None, w)"
| "run_calls ins sync (InsertOp r m # cs) w =
     (case fst (ins m (engines w r)) of
        Some x \<Rightarrow> (Some (External x), do_insert ins r m w)
      | None \<Rightarrow> run_calls ins sync cs (do_insert ins r m w))"
| "run_calls ins sync (SyncOp k # cs) w =
     (case fst (sync (engines w) (trackers w k)) of
        Some x \<Rightarrow> (Some (External x), do_sync sync k w)
      | None \<Rightarrow> run_calls ins sync cs (do_sync sync k w))"

subsection \<open>Messages, signals and proofs\<close>

text \<open>
  \<^verbatim>\<open>pb.RateLimitProof\<close> and \<^verbatim>\<open>pb.WakuMessage\<close> are the decoded protobuf messages;
  of a Waku message only the fields read by the two helpers are kept. A Go string is a
  sequence of bytes, and \<^verbatim>\<open>[]byte(s)\<close> is that sequence.
\<close>

record pb_RateLimitProof =
  pb_Proof :: "byte list"
  pb_MerkleRoot :: "byte list"
  pb_Epoch :: "byte list"
  pb_ShareX :: "byte list"
  pb_ShareY :: "byte list"
  pb_Nullifier :: "byte list"
  pb_RlnIdentifier :: "byte list"

record WakuMessage =
  Payload :: "byte list"
  ContentTopic :: string
  RateLimitProof :: "pb_RateLimitProof option"

definition byte_of_char :: "char \<Rightarrow> byte" where
  "byte_of_char c = word_of_nat (of_char c)"

definition bytes_of_string :: "string \<Rightarrow> byte list" where
  "bytes_of_string s = map byte_of_char s"

text \<open>\<^verbatim>\<open>toRLNSignal\<close>: the value of the slice that \<^verbatim>\<open>append\<close> returns.\<close>

definition toRLNSignal :: "WakuMessage option \<Rightarrow> byte list" where
  "toRLNSignal wakuMessage =
     (case wakuMessage of
        None \<Rightarrow> []
      | Some m \<Rightarrow>
          (let contentTopicBytes = bytes_of_string (ContentTopic m)
           in Payload m @ contentTopicBytes))"

text \<open>\<^verbatim>\<open>rln.RateLimitProof\<close>: fixed-size byte arrays, kept as byte lists.\<close>

record rln_RateLimitProof =
  Proof :: "byte list"
  MerkleRoot :: "byte list"
  Epoch :: "byte list"
  ShareX :: "byte list"
  ShareY :: "byte list"
  Nullifier :: "byte list"
  RLNIdentifier :: "byte list"

text \<open>
  \<^verbatim>\<open>rln.Bytes128\<close> and \<^verbatim>\<open>rln.Bytes32\<close> are functions of the zerokit binding that
  copy a slice into an array. They are parameters here; each either returns the array
  (\<open>Inr\<close>) or panics (\<open>Inl\<close>). The fields of the struct literal are evaluated in the
  order they are written.
\<close>

definition and_then :: "'e + 'a \<Rightarrow> ('a \<Rightarrow> 'e + 'b) \<Rightarrow> 'e + 'b" where
  "and_then r f = (case r of Inl e \<Rightarrow> Inl e | Inr a \<Rightarrow> f a)"

definition toRateLimitProof ::
  "(byte list \<Rightarrow> 'x error + byte list) \<Rightarrow> (byte list \<Rightarrow> 'x error + byte list) \<Rightarrow>
   WakuMessage option \<Rightarrow> 'x error + rln_RateLimitProof option"
where
  "toRateLimitProof Bytes128 Bytes32 msg =
     (case msg of
        None \<Rightarrow> Inr None
      | Some m \<Rightarrow>
          (case RateLimitProof m of
             None \<Rightarrow> Inr None
           | Some p \<Rightarrow>
               and_then (Bytes128 (pb_Proof p)) (\<lambda>proof.
               and_then (Bytes32 (pb_MerkleRoot p)) (\<lambda>merkleRoot.
               and_then (Bytes32 (pb_Epoch p)) (\<lambda>epoch.
               and_then (Bytes32 (pb_ShareX p)) (\<lambda>shareX.
               and_then (Bytes32 (pb_ShareY p)) (\<lambda>shareY.
               and_then (Bytes32 (pb_Nullifier p)) (\<lambda>nullifier.
               and_then (Bytes32 (pb_RlnIdentifier p)) (\<lambda>rlnIdentifier.
                 Inr (Some \<lparr> Proof = proof,
                              MerkleRoot = merkleRoot,
                              Epoch = epoch,
                              ShareX = shareX,
                              ShareY = shareY,
                              Nullifier = nullifier,
                              RLNIdentifier = rlnIdentifier \<rparr>))))))))))"

subsection \<open>Constants of package rln\<close>

datatype messageValidationResult =
  validationError | validMessage | invalidMessage | spamMessage

text \<open>
  \<^verbatim>\<open>maxClockGapSeconds\<close> is an untyped constant; in the quotient it takes the type of
  \<^verbatim>\<open>rln.EPOCH_UNIT_SECONDS\<close>, an unsigned 64-bit constant of the zerokit binding and a
  parameter here. The quotient is an unsigned division, and \<^verbatim>\<open>int64(...)\<close> reads
  its bits as a signed number. (A zero \<^verbatim>\<open>EPOCH_UNIT_SECONDS\<close> does not compile.)
\<close>

definition maxClockGapSeconds :: "64 word" where
  "maxClockGapSeconds = 20"

definition maxEpochGap :: "64 word \<Rightarrow> int" where
  "maxEpochGap EPOCH_UNIT_SECONDS = sint (maxClockGapSeconds div EPOCH_UNIT_SECONDS)"

definition acceptableRootWindowSize :: nat where
  "acceptableRootWindowSize = 5"

subsection \<open>The message validation pipeline\<close>

text \<open>
  The function of package \<^verbatim>\<open>rln\<close> that classifies an inbound message is not among the
  sources, so the steps below follow section 4.3 of the specification. An epoch is read
  as an integer by \<open>epoch_number\<close>; the root window tracker (\<open>is_acceptable\<close>), the
  engine's proof verification (\<open>verify\<close>, which may fail with an engine error) and its
  rate check (\<open>rate_exceeded\<close>) are parameters. The second component of a result
  counts the calls of \<open>verify\<close>.
\<close>

text \<open>
  Modelled from the spec: the integer distance between the epoch of a proof and the
  local current epoch, which the missing validation function compares with the bound.
\<close>

definition epoch_distance :: "int \<Rightarrow> int \<Rightarrow> int" where
  "epoch_distance proofEpoch currentEpoch = \<bar>proofEpoch - currentEpoch\<bar>"

text \<open>
  Modelled from the spec: step 2 of section 4.3, the epoch tolerance, which the missing
  validation function performs. \<open>Some\<close> is a final classification, \<open>None\<close> lets
  the validation proceed. The bound \<open>maxEpochGap\<close> is the constant of the code.
\<close>

definition epoch_tolerance :: "64 word \<Rightarrow> int \<Rightarrow> int \<Rightarrow> messageValidationResult option" where
  "epoch_tolerance EPOCH_UNIT_SECONDS proofEpoch currentEpoch =
     (if epoch_distance proofEpoch currentEpoch > maxEpochGap EPOCH_UNIT_SECONDS
      then Some invalidMessage
      else None)"

text \<open>
  Modelled from the spec: steps 3 to 6 of section 4.3 of the missing validation function:
  root acceptability, cryptographic verification, rate check, and \<open>Valid\<close> otherwise.
\<close>

definition after_epoch_tolerance ::
  "(byte list \<Rightarrow> bool) \<Rightarrow> (rln_RateLimitProof \<Rightarrow> byte list \<Rightarrow> 'x + bool) \<Rightarrow>
   (rln_RateLimitProof \<Rightarrow> bool) \<Rightarrow> rln_RateLimitProof \<Rightarrow> byte list \<Rightarrow>
   messageValidationResult \<times> nat"
where
  "after_epoch_tolerance is_acceptable verify rate_exceeded p signal =
     (if \<not> is_acceptable (MerkleRoot p) then (invalidMessage, 0)
      else
        (case verify p signal of
           Inl e \<Rightarrow> (validationError, 1)
         | Inr False \<Rightarrow> (invalidMessage, 1)
         | Inr True \<Rightarrow>
             if rate_exceeded p then (spamMessage, 1) else (validMessage, 1)))"

text \<open>
  Modelled from the spec: the whole pipeline of section 4.3 of the missing validation
  function: the signal is derived first, then the steps run in order and stop at the
  first one that classifies the message.
\<close>

definition validate_message ::
  "64 word \<Rightarrow> (byte list \<Rightarrow> int) \<Rightarrow>
   (byte list \<Rightarrow> bool) \<Rightarrow> (rln_RateLimitProof \<Rightarrow> byte list \<Rightarrow> 'x + bool) \<Rightarrow>
   (rln_RateLimitProof \<Rightarrow> bool) \<Rightarrow> WakuMessage \<Rightarrow> rln_RateLimitProof \<Rightarrow> int \<Rightarrow>
   messageValidationResult \<times> nat"
where
  "validate_message EPOCH_UNIT_SECONDS epoch_number is_acceptable verify rate_exceeded
       msg p currentEpoch =
     (let signal = toRLNSignal (Some msg) in
      case epoch_tolerance EPOCH_UNIT_SECONDS (epoch_number (Epoch p)) currentEpoch of
        Some r \<Rightarrow> (r, 0)
      | None \<Rightarrow> after_epoch_tolerance is_acceptable verify rate_exceeded p signal)"

subsection \<open>A small instance\<close>

text \<open>
  Concrete collaborators on which the functions above can be run: an RLN instance whose
  state is the list of members inserted so far and whose insert fails once \<open>cap\<close>
  members are in; a tracker whose state is the list of tree sizes it has seen at the
  instance with address 0; a store with nothing in it; a credential and a manager as
  the constructor would return it.
\<close>

definition capped_ins ::
  "nat \<Rightarrow> IDCommitment \<Rightarrow> IDCommitment list \<Rightarrow> string option \<times> IDCommitment list" where
  "capped_ins cap m e = (if length e < cap then (None, e @ [m]) else (Some ''tree is full'', e))"

definition counting_sync ::
  "(ref \<Rightarrow> IDCommitment list) \<Rightarrow> nat list \<Rightarrow> string option \<times> nat list" where
  "counting_sync es t = (None, length (es 0) # t)"

definition failing_sync ::
  "(ref \<Rightarrow> IDCommitment list) \<Rightarrow> nat list \<Rightarrow> string option \<times> nat list" where
  "failing_sync es t = (if es 0 = [] then (None, 0 # t) else (Some ''no root'', t))"

definition empty_world :: "(IDCommitment list, nat list, string) world" where
  "empty_world = \<lparr> engines = (\<lambda>r. []), trackers = (\<lambda>k. []), calls = [] \<rparr>"

definition local_credential :: IdentityCredential where
  "local_credential = \<lparr> IDSecretHash = [7], IDCommitment = [2] \<rparr>"

definition fresh_manager :: "IDCommitment list \<Rightarrow> StaticGroupManager" where
  "fresh_manager grp =
     \<lparr> rln = None, identityCredential = Some local_credential,
       membershipIndex = Some 1, group = grp, rootTracker = None \<rparr>"

definition first_byte :: "byte list \<Rightarrow> int" where
  "first_byte bs = (case bs of [] \<Rightarrow> 0 | b # rest \<Rightarrow> uint b)"

definition proof_at_epoch :: "byte \<Rightarrow> rln_RateLimitProof" where
  "proof_at_epoch e =
     \<lparr> Proof = [], MerkleRoot = [9], Epoch = [e], ShareX = [], ShareY = [],
       Nullifier = [], RLNIdentifier = [] \<rparr>"

definition hello_message :: WakuMessage where
  "hello_message = \<lparr> Payload = [104, 105], ContentTopic = ''/t'', RateLimitProof = None \<rparr>"

text \<open>The manager and the store as a successful \<^verbatim>\<open>Start\<close> on a group of two leaves them.\<close>

definition started_manager :: StaticGroupManager where
  "started_manager =
     fst (snd (Start (capped_ins 2) counting_sync (fresh_manager [[1], [2]]) (Some 0) (Some 0)
                 empty_world))"

definition started_world :: "(IDCommitment list, nat list, string) world" where
  "started_world =
     snd (snd (Start (capped_ins 2) counting_sync (fresh_manager [[1], [2]]) (Some 0) (Some 0)
                 empty_world))"

section \<open>Properties\<close>

subsection \<open>Auxiliary facts about 64-bit indices\<close>

lemma sint_of_small:
  fixes index :: "64 word"
  assumes "uint index < 2 ^ 63"
  shows "sint index = uint index"
proof -
  have "0 \<le> uint index" by simp
  moreover have "- (2 ^ 63) \<le> (0::int)" by simp
  ultimately have "- (2 ^ 63) \<le> uint index" by (rule order_trans[rotated])
  then have "signed_take_bit 63 (uint index) = uint index"
    using assms by (intro signed_take_bit_int_eq_self) simp_all
  then show ?thesis by (simp add: sint_uint)
qed

lemma sint_of_big:
  fixes index :: "64 word"
  assumes "2 ^ 63 \<le> uint index"
  shows "sint index < 0"
proof -
  have "uint index < 2 ^ LENGTH(64)" by (rule uint_lt2p)
  then have lt: "uint index < 2 ^ 64" by (simp only: len_of_numeral_defs) simp
  have "signed_take_bit 63 (uint index) \<le> uint index - 2 ^ Suc 63"
    using assms by (rule signed_take_bit_int_less_eq)
  then have "sint index \<le> uint index - 2 ^ 64" by (simp add: sint_uint)
  with lt show ?thesis by linarith
qed

lemma index_in_range:
  fixes index :: "64 word"
  assumes "unat index < n" and "n < 2 ^ 63"
  shows "sint index = int (unat index)"
proof -
  have "unat index < 2 ^ 63" using assms by (rule less_trans)
  then have "int (unat index) < int (2 ^ 63)" by (simp only: of_nat_less_iff)
  then have "uint index < 2 ^ 63" by simp
  then show ?thesis using sint_of_small by simp
qed

lemma index_out_of_range:
  fixes index :: "64 word"
  assumes "n \<le> unat index"
  shows "sint index < 0 \<or> int n \<le> sint index"
proof (cases "uint index < 2 ^ 63")
  case True
  then have "sint index = uint index" by (rule sint_of_small)
  moreover have "int n \<le> int (unat index)" using assms by (simp only: of_nat_le_iff)
  ultimately show ?thesis by simp
next
  case False
  then have "2 ^ 63 \<le> uint index" by simp
  then show ?thesis using sint_of_big by blast
qed

subsection \<open>Construction\<close>

text \<open>
  Claim C1. For every group \<open>G\<close>, credential \<open>C\<close> and index \<open>i\<close> below the length of
  \<open>G\<close> (a Go slice has fewer than \<open>2 ^ 63\<close> elements): if \<open>G[i]\<close> differs from the
  commitment of \<open>C\<close>, \<^verbatim>\<open>NewStaticGroupManager\<close> returns the mismatch error and no
  manager; otherwise it returns a manager that stores \<open>C\<close>, \<open>i\<close> and \<open>G\<close>. The
  constructor takes no RLN instance and the manager it returns points to none, so no
  member can have been inserted.
\<close>

theorem NewStaticGroupManager_membership_gate:
  fixes G :: "IDCommitment list" and i :: MembershipIndex
  assumes "unat i < length G" and "length G < 2 ^ 63"
  shows "(G ! unat i \<noteq> IDCommitment C \<longrightarrow>
            (NewStaticGroupManager G C i :: 'x error + StaticGroupManager) = Inl MembershipMismatch)
       \<and> (G ! unat i = IDCommitment C \<longrightarrow>
            (\<exists>gm. (NewStaticGroupManager G C i :: 'x error + StaticGroupManager) = Inr gm
               \<and> identityCredential gm = Some C \<and> membershipIndex gm = Some i \<and> group gm = G
               \<and> rln gm = None \<and> rootTracker gm = None))"
proof -
  have eq: "sint i = int (unat i)" using assms by (rule index_in_range)
  have a: "\<not> sint i < 0" unfolding eq by simp
  have b: "\<not> int (length G) \<le> sint i" using assms(1) unfolding eq by linarith
  have c: "nat (sint i) = unat i" unfolding eq by simp
  show ?thesis
    by (simp add: NewStaticGroupManager_def Let_def a b c)
qed

text \<open>The group \<open>[[1], [2]]\<close> at index 1, with a credential that is not and one that is
  the member at that index.\<close>

theorem NewStaticGroupManager_membership_gate_witness:
  "unat (1 :: MembershipIndex) < length [[1], [2 :: byte]] \<and> length [[1], [2 :: byte]] < 2 ^ 63
   \<and> (NewStaticGroupManager [[1], [2]] \<lparr> IDSecretHash = [7], IDCommitment = [3] \<rparr> 1
         :: unit error + StaticGroupManager) = Inl MembershipMismatch
   \<and> (\<exists>gm. (NewStaticGroupManager [[1], [2]] \<lparr> IDSecretHash = [7], IDCommitment = [2] \<rparr> 1
         :: unit error + StaticGroupManager) = Inr gm
        \<and> identityCredential gm = Some \<lparr> IDSecretHash = [7], IDCommitment = [2] \<rparr>
        \<and> membershipIndex gm = Some 1 \<and> group gm = [[1], [2]])"
  using NewStaticGroupManager_membership_gate
          [of 1 "[[1], [2]]" "\<lparr> IDSecretHash = [7], IDCommitment = [3] \<rparr>", where 'x = unit]
        NewStaticGroupManager_membership_gate
          [of 1 "[[1], [2]]" "\<lparr> IDSecretHash = [7], IDCommitment = [2] \<rparr>", where 'x = unit]
  by auto

text \<open>
  Claim C10. The membership check indexes the group with no bounds check of its own:
  for every index that is not below the length of the group, the index expression is
  out of range and the constructor panics; it does not return the mismatch error.
\<close>

theorem NewStaticGroupManager_index_out_of_range:
  fixes G :: "IDCommitment list" and i :: MembershipIndex
  assumes "length G \<le> unat i"
  shows "(NewStaticGroupManager G C i :: 'x error + StaticGroupManager) = Inl PanicIndexOutOfRange
         \<and> (NewStaticGroupManager G C i :: 'x error + StaticGroupManager) \<noteq> Inl MembershipMismatch"
proof -
  have "sint i < 0 \<or> int (length G) \<le> sint i" using assms by (rule index_out_of_range)
  then show ?thesis by (simp add: NewStaticGroupManager_def Let_def)
qed

text \<open>Index 2 in a group of two members.\<close>

theorem NewStaticGroupManager_index_out_of_range_witness:
  "length [[1], [2 :: byte]] \<le> unat (2 :: MembershipIndex)
   \<and> (NewStaticGroupManager [[1], [2]] \<lparr> IDSecretHash = [7], IDCommitment = [2] \<rparr> 2
         :: unit error + StaticGroupManager) = Inl PanicIndexOutOfRange"
  using NewStaticGroupManager_index_out_of_range
          [of "[[1], [2]]" 2 "\<lparr> IDSecretHash = [7], IDCommitment = [2] \<rparr>", where 'x = unit]
  by simp

subsection \<open>Auxiliary facts about the collaborators and the loop\<close>

lemma rln_InsertMember_Some:
  "rln_InsertMember ins (Some r) m w =
     (map_option External (fst (ins m (engines w r))),
      w\<lparr> engines := (engines w)(r := snd (ins m (engines w r))),
         calls := calls w @ [(InsertOp r m, fst (ins m (engines w r)))] \<rparr>)"
  by (simp add: rln_InsertMember_def split: prod.split)

lemma rootTracker_Sync_Some:
  "rootTracker_Sync sync (Some k) w =
     (map_option External (fst (sync (engines w) (trackers w k))),
      w\<lparr> trackers := (trackers w)(k := snd (sync (engines w) (trackers w k))),
         calls := calls w @ [(SyncOp k, fst (sync (engines w) (trackers w k)))] \<rparr>)"
  by (simp add: rootTracker_Sync_def split: prod.split)

lemma member_calls_Cons:
  "member_calls r k (m # ms) = InsertOp r m # SyncOp k # member_calls r k ms"
  by (simp add: member_calls_def)

lemma member_calls_Nil: "member_calls r k [] = []"
  by (simp add: member_calls_def)

lemma rln_InsertMember_do:
  "rln_InsertMember ins (Some r) m w =
     (map_option External (fst (ins m (engines w r))), do_insert ins r m w)"
  by (simp add: rln_InsertMember_def do_insert_def split: prod.split)

lemma rootTracker_Sync_do:
  "rootTracker_Sync sync (Some k) w =
     (map_option External (fst (sync (engines w) (trackers w k))), do_sync sync k w)"
  by (simp add: rootTracker_Sync_def do_sync_def split: prod.split)

lemma do_insert_fields:
  "engines (do_insert ins r m w) = (engines w)(r := snd (ins m (engines w r)))"
  "trackers (do_insert ins r m w) = trackers w"
  "calls (do_insert ins r m w) = calls w @ [(InsertOp r m, fst (ins m (engines w r)))]"
  by (simp_all add: do_insert_def)

lemma do_sync_fields:
  "engines (do_sync sync k w) = engines w"
  "trackers (do_sync sync k w) = (trackers w)(k := snd (sync (engines w) (trackers w k)))"
  "calls (do_sync sync k w) = calls w @ [(SyncOp k, fst (sync (engines w) (trackers w k)))]"
  by (simp_all add: do_sync_def)

lemma Start_loop_run_calls:
  "Start_loop ins sync (Some r) (Some k) ms w = run_calls ins sync (member_calls r k ms) w"
proof (induction ms arbitrary: w)
  case Nil
  show ?case by (simp add: member_calls_Nil)
next
  case (Cons m ms)
  show ?case
    by (simp add: member_calls_Cons rln_InsertMember_do rootTracker_Sync_do Cons.IH
          split: option.split)
qed

lemma run_member_calls_step:
  assumes "fst (ins m (engines w r)) = None"
    and "fst (sync (engines (do_insert ins r m w)) (trackers (do_insert ins r m w) k)) = None"
  shows "run_calls ins sync (member_calls r k (m # ms)) w
       = run_calls ins sync (member_calls r k ms) (do_sync sync k (do_insert ins r m w))"
  using assms by (simp add: member_calls_Cons)

lemma run_member_calls_ok:
  assumes "fst (run_calls ins sync (member_calls r k ms) w) = None"
  shows "calls (snd (run_calls ins sync (member_calls r k ms) w))
           = calls w @ succeeded (member_calls r k ms)
       \<and> engines (snd (run_calls ins sync (member_calls r k ms) w))
           = (engines w)(r := foldl (\<lambda>e m. snd (ins m e)) (engines w r) ms)"
  using assms
proof (induction ms arbitrary: w)
  case Nil
  show ?case by (simp add: member_calls_Nil succeeded_def)
next
  case (Cons m ms)
  let ?w1 = "do_insert ins r m w"
  let ?w2 = "do_sync sync k ?w1"
  have i: "fst (ins m (engines w r)) = None"
    using Cons.prems by (simp add: member_calls_Cons split: option.splits)
  have s: "fst (sync (engines ?w1) (trackers ?w1 k)) = None"
    using Cons.prems i by (simp add: member_calls_Cons split: option.splits)
  have eq: "run_calls ins sync (member_calls r k (m # ms)) w
          = run_calls ins sync (member_calls r k ms) ?w2"
    using i s by (rule run_member_calls_step)
  have "fst (run_calls ins sync (member_calls r k ms) ?w2) = None"
    using Cons.prems by (simp only: eq)
  note ih0 = Cons.IH [OF this]
  note ih = ih0 [THEN conjunct1] ih0 [THEN conjunct2]
  have c: "calls ?w2 = calls w @ [(InsertOp r m, None), (SyncOp k, None)]"
    using i s by (simp add: do_sync_fields do_insert_fields)
  have e: "engines ?w2 = (engines w)(r := snd (ins m (engines w r)))"
    by (simp add: do_sync_fields do_insert_fields)
  show ?case
    by (simp only: eq ih c e) (simp add: succeeded_def member_calls_Cons fun_eq_iff)
qed

lemma run_member_calls_failed:
  assumes "fst (run_calls ins sync (member_calls r k ms) w) = Some x"
  shows "\<exists>j e wj. j < length ms \<and> x = External e
       \<and> run_calls ins sync (member_calls r k (take j ms)) w = (None, wj)
       \<and> ( (fst (ins (ms ! j) (engines wj r)) = Some e
            \<and> snd (run_calls ins sync (member_calls r k ms) w) = do_insert ins r (ms ! j) wj)
          \<or> (fst (ins (ms ! j) (engines wj r)) = None
            \<and> fst (sync (engines (do_insert ins r (ms ! j) wj))
                     (trackers (do_insert ins r (ms ! j) wj) k)) = Some e
            \<and> snd (run_calls ins sync (member_calls r k ms) w)
                = do_sync sync k (do_insert ins r (ms ! j) wj)) )"
  using assms
proof (induction ms arbitrary: w)
  case Nil
  then show ?case by (simp add: member_calls_Nil)
next
  case (Cons m ms)
  let ?w1 = "do_insert ins r m w"
  let ?w2 = "do_sync sync k ?w1"
  have start: "run_calls ins sync (member_calls r k (take 0 (m # ms))) w = (None, w)"
    by (simp add: member_calls_Nil)
  show ?case
  proof (cases "fst (ins m (engines w r))")
    case (Some e)
    then have "x = External e"
      "snd (run_calls ins sync (member_calls r k (m # ms)) w) = do_insert ins r ((m # ms) ! 0) w"
      using Cons.prems by (simp_all add: member_calls_Cons)
    moreover have "fst (ins ((m # ms) ! 0) (engines w r)) = Some e"
      using Some by simp
    moreover have "0 < length (m # ms)" by simp
    ultimately show ?thesis using start by blast
  next
    case None
    note i = this
    show ?thesis
    proof (cases "fst (sync (engines ?w1) (trackers ?w1 k))")
      case (Some e)
      then have "x = External e"
        "snd (run_calls ins sync (member_calls r k (m # ms)) w)
           = do_sync sync k (do_insert ins r ((m # ms) ! 0) w)"
        using Cons.prems i by (simp_all add: member_calls_Cons)
      moreover have "fst (ins ((m # ms) ! 0) (engines w r)) = None"
        using i by simp
      moreover have "fst (sync (engines (do_insert ins r ((m # ms) ! 0) w))
                       (trackers (do_insert ins r ((m # ms) ! 0) w) k)) = Some e"
        using Some by simp
      moreover have "0 < length (m # ms)" by simp
      ultimately show ?thesis using start by blast
    next
      case None
      note s = this
      have eq: "run_calls ins sync (member_calls r k (m # ms)) w
              = run_calls ins sync (member_calls r k ms) ?w2"
        using i s by (rule run_member_calls_step)
      have "fst (run_calls ins sync (member_calls r k ms) ?w2) = Some x"
        using Cons.prems by (simp only: eq)
      from Cons.IH [OF this] obtain j e wj where
        j: "j < length ms" "x = External e"
           "run_calls ins sync (member_calls r k (take j ms)) ?w2 = (None, wj)"
        and d: "(fst (ins (ms ! j) (engines wj r)) = Some e
            \<and> snd (run_calls ins sync (member_calls r k ms) ?w2) = do_insert ins r (ms ! j) wj)
          \<or> (fst (ins (ms ! j) (engines wj r)) = None
            \<and> fst (sync (engines (do_insert ins r (ms ! j) wj))
                     (trackers (do_insert ins r (ms ! j) wj) k)) = Some e
            \<and> snd (run_calls ins sync (member_calls r k ms) ?w2)
                = do_sync sync k (do_insert ins r (ms ! j) wj))"
        by blast
      have pre: "run_calls ins sync (member_calls r k (take (Suc j) (m # ms))) w = (None, wj)"
        using j(3) i s
          run_member_calls_step [where ins = ins and sync = sync and r = r and k = k and m = m
            and w = w and ms = "take j ms"]
        by simp
      have len: "Suc j < length (m # ms)" using j(1) by simp
      have d': "(fst (ins ((m # ms) ! Suc j) (engines wj r)) = Some e
            \<and> snd (run_calls ins sync (member_calls r k (m # ms)) w)
                = do_insert ins r ((m # ms) ! Suc j) wj)
          \<or> (fst (ins ((m # ms) ! Suc j) (engines wj r)) = None
            \<and> fst (sync (engines (do_insert ins r ((m # ms) ! Suc j) wj))
                     (trackers (do_insert ins r ((m # ms) ! Suc j) wj) k)) = Some e
            \<and> snd (run_calls ins sync (member_calls r k (m # ms)) w)
                = do_sync sync k (do_insert ins r ((m # ms) ! Suc j) wj))"
        using d by (simp only: eq nth_Cons_Suc)
      show ?thesis using len j(2) pre d' by blast
    qed
  qed
qed

lemma run_bootstrap_calls:
  "run_calls ins sync (bootstrap_calls r k ms) w =
     (case fst (sync (engines w) (trackers w k)) of
        Some x \<Rightarrow> (Some (External x), do_sync sync k w)
      | None \<Rightarrow> run_calls ins sync (member_calls r k ms) (do_sync sync k w))"
  by (simp add: bootstrap_calls_def)

lemma Start_run_calls:
  "(fst (Start ins sync gm (Some r) (Some k) w), snd (snd (Start ins sync gm (Some r) (Some k) w)))
     = run_calls ins sync (bootstrap_calls r k (group gm)) w"
  by (simp add: Start_def Let_def rootTracker_Sync_do Start_loop_run_calls run_bootstrap_calls
        split: option.split prod.split)

lemma count_member_calls:
  "length (filter is_insert (succeeded (member_calls r k ms) :: (op \<times> 'x option) list)) = length ms
   \<and> length (filter is_sync (succeeded (member_calls r k ms) :: (op \<times> 'x option) list)) = length ms"
  by (induction ms) (simp_all add: member_calls_Nil member_calls_Cons succeeded_def)

lemma Start_error:
  "fst (Start ins sync gm ri tr w) =
     (case fst (rootTracker_Sync sync tr w) of
        Some err \<Rightarrow> Some err
      | None \<Rightarrow> fst (Start_loop ins sync ri tr (group gm) (snd (rootTracker_Sync sync tr w))))"
  by (simp add: Start_def Let_def split: prod.split option.split)

lemma Start_world:
  "snd (snd (Start ins sync gm ri tr w)) =
     (case fst (rootTracker_Sync sync tr w) of
        Some err \<Rightarrow> snd (rootTracker_Sync sync tr w)
      | None \<Rightarrow> snd (Start_loop ins sync ri tr (group gm) (snd (rootTracker_Sync sync tr w))))"
  by (simp add: Start_def Let_def split: prod.split option.split)

lemma Start_manager:
  "fst (snd (Start ins sync gm ri tr w)) =
     (if fst (Start ins sync gm ri tr w) = None
      then gm\<lparr> rln := ri, rootTracker := tr, group := [] \<rparr>
      else gm\<lparr> rln := ri, rootTracker := tr \<rparr>)"
  by (simp add: Start_def Let_def split: prod.split option.split)

lemmas instance_defs = capped_ins_def counting_sync_def failing_sync_def empty_world_def
  fresh_manager_def local_credential_def

lemmas run_simps = Start_error Start_world rln_InsertMember_Some rootTracker_Sync_Some

lemma run_full_error:
  "fst (Start (capped_ins 2) counting_sync (fresh_manager [[1], [2], [3]]) (Some 0) (Some 0) empty_world)
     = Some (External ''tree is full'')"
  by (simp add: instance_defs run_simps)

lemma run_full_calls:
  "calls (snd (snd (Start (capped_ins 2) counting_sync (fresh_manager [[1], [2], [3]]) (Some 0) (Some 0) empty_world)))
     = [(SyncOp 0, None), (InsertOp 0 [1], None), (SyncOp 0, None), (InsertOp 0 [2], None),
        (SyncOp 0, None), (InsertOp 0 [3], Some ''tree is full'')]"
  by (simp add: instance_defs run_simps)

lemma run_ok_error:
  "fst (Start (capped_ins 2) counting_sync (fresh_manager [[1], [2]]) (Some 0) (Some 0) empty_world) = None"
  by (simp add: instance_defs run_simps)

lemma run_ok_calls:
  "calls (snd (snd (Start (capped_ins 2) counting_sync (fresh_manager [[1], [2]]) (Some 0) (Some 0) empty_world)))
     = [(SyncOp 0, None), (InsertOp 0 [1], None), (SyncOp 0, None), (InsertOp 0 [2], None),
        (SyncOp 0, None)]"
  by (simp add: instance_defs run_simps)

lemma run_ok_engine:
  "engines (snd (snd (Start (capped_ins 2) counting_sync (fresh_manager [[1], [2]]) (Some 0) (Some 0) empty_world))) 0
     = [[1], [2]]"
  by (simp add: instance_defs run_simps)

lemma run_ok_tracker:
  "trackers (snd (snd (Start (capped_ins 2) counting_sync (fresh_manager [[1], [2]]) (Some 0) (Some 0) empty_world))) 0
     = [2, 1, 0]"
  by (simp add: instance_defs run_simps)

lemma run_full_engine:
  "engines (snd (snd (Start (capped_ins 2) counting_sync (fresh_manager [[1], [2], [3]]) (Some 0) (Some 0) empty_world))) 0
     = [[1], [2]]"
  by (simp add: instance_defs run_simps)

lemma run_sync_error:
  "fst (Start (capped_ins 5) failing_sync (fresh_manager [[1], [2]]) (Some 0) (Some 0) empty_world)
     = Some (External ''no root'')"
  by (simp add: instance_defs run_simps)

lemma run_sync_calls:
  "calls (snd (snd (Start (capped_ins 5) failing_sync (fresh_manager [[1], [2]]) (Some 0) (Some 0) empty_world)))
     = [(SyncOp 0, None), (InsertOp 0 [1], None), (SyncOp 0, Some ''no root'')]"
  by (simp add: instance_defs run_simps)

lemma run_sync_engine:
  "engines (snd (snd (Start (capped_ins 5) failing_sync (fresh_manager [[1], [2]]) (Some 0) (Some 0) empty_world))) 0
     = [[1]]"
  by (simp add: instance_defs run_simps)

lemma run_ok_manager:
  "fst (snd (Start (capped_ins 2) counting_sync (fresh_manager [[1], [2]]) (Some 0) (Some 0) empty_world))
     = \<lparr> rln = Some 0, identityCredential = Some local_credential,
         membershipIndex = Some 1, group = [], rootTracker = Some 0 \<rparr>"
  by (simp add: Start_manager run_ok_error) (simp add: fresh_manager_def)

lemma run_full_manager:
  "fst (snd (Start (capped_ins 2) counting_sync (fresh_manager [[1], [2], [3]]) (Some 0) (Some 0) empty_world))
     = \<lparr> rln = Some 0, identityCredential = Some local_credential,
         membershipIndex = Some 1, group = [[1], [2], [3]], rootTracker = Some 0 \<rparr>"
  by (simp add: Start_manager run_full_error) (simp add: fresh_manager_def)

lemma started_manager_eq:
  "started_manager = \<lparr> rln = Some 0, identityCredential = Some local_credential,
         membershipIndex = Some 1, group = [], rootTracker = Some 0 \<rparr>"
  by (simp only: started_manager_def run_ok_manager)

lemma started_world_calls:
  "calls started_world = succeeded (bootstrap_calls 0 0 [[1], [2]])"
  by (simp add: started_world_def run_ok_calls succeeded_def bootstrap_calls_def member_calls_def)

lemma started_world_engine: "engines started_world 0 = [[1], [2]]"
  by (simp add: started_world_def instance_defs run_simps)

lemma started_world_tracker: "trackers started_world 0 = [2, 1, 0]"
  by (simp add: started_world_def instance_defs run_simps)

lemma failing_sync_started:
  "failing_sync (engines started_world) t = (Some ''no root'', t)"
  by (simp add: failing_sync_def started_world_engine)

lemma run_first_error:
  "fst (Start (capped_ins 5) failing_sync (fresh_manager [[3]]) (Some 0) (Some 0) started_world)
     = Some (External ''no root'')"
  by (simp add: run_simps failing_sync_started)

lemma run_first_calls:
  "calls (snd (snd (Start (capped_ins 5) failing_sync (fresh_manager [[3]]) (Some 0) (Some 0) started_world)))
     = calls started_world @ [(SyncOp 0, Some ''no root'')]"
  by (simp add: run_simps failing_sync_started)

lemma run_first_engine:
  "engines (snd (snd (Start (capped_ins 5) failing_sync (fresh_manager [[3]]) (Some 0) (Some 0) started_world))) 0
     = [[1], [2]]"
  by (simp add: run_simps failing_sync_started started_world_engine)

lemma fresh_manager_fields:
  "group (fresh_manager grp) = grp \<and> identityCredential (fresh_manager grp) = Some local_credential
   \<and> membershipIndex (fresh_manager grp) = Some 1"
  by (simp add: fresh_manager_def)

lemma construct_fresh_manager:
  "(NewStaticGroupManager [[1], [2]] local_credential 1 :: 'x error + StaticGroupManager)
     = Inr (fresh_manager [[1], [2]])"
  by (simp add: NewStaticGroupManager_def fresh_manager_def local_credential_def)

subsection \<open>Start\<close>

text \<open>
  Claim C2. \<^verbatim>\<open>Start\<close> on a manager holding the group \<open>G\<close> of \<open>N\<close> members, given an
  RLN instance \<open>r\<close> and a root tracker \<open>k\<close>, returns the error and leaves the store
  that result from making the calls \<open>bootstrap_calls r k G\<close> (one sync, then for each
  member in list order an insert followed by a sync) one after the other, each on the
  store the one before it left, up to the first call that returns an error. One of the
  following has happened:
  \<^item> every call returned no error: \<^verbatim>\<open>Start\<close> returns no error, after \<open>N\<close> inserts and
    \<open>N + 1\<close> syncs, and the instance is in the state that inserting the members of \<open>G\<close>
    in order leaves;
  \<^item> the first sync returned an error \<open>e\<close>: \<^verbatim>\<open>Start\<close> returns \<open>e\<close> and the store is the
    one that sync left;
  \<^item> the calls for the members \<open>0..j-1\<close> returned no error and left the store \<open>wj\<close>,
    in which the instance has had exactly those members inserted, and the insert of
    member \<open>j\<close> on \<open>wj\<close> returned an error \<open>e\<close>: \<^verbatim>\<open>Start\<close> returns \<open>e\<close>, the store is
    the one that insert left, and no sync follows it;
  \<^item> as before, but the insert of member \<open>j\<close> returned no error and the sync after it
    returned an error \<open>e\<close>: \<^verbatim>\<open>Start\<close> returns \<open>e\<close> and the store is the one that sync
    left.
\<close>

theorem Start_call_sequence:
  fixes w :: "('e, 't, 'x) world"
  shows "\<exists>L. calls (snd (snd (Start ins sync gm (Some r) (Some k) w))) = calls w @ L
     \<and> (fst (Start ins sync gm (Some r) (Some k) w), snd (snd (Start ins sync gm (Some r) (Some k) w)))
         = run_calls ins sync (bootstrap_calls r k (group gm)) w
     \<and> ( (fst (Start ins sync gm (Some r) (Some k) w) = None
           \<and> L = succeeded (bootstrap_calls r k (group gm))
           \<and> length (filter is_insert L) = length (group gm)
           \<and> length (filter is_sync L) = length (group gm) + 1
           \<and> engines (snd (snd (Start ins sync gm (Some r) (Some k) w)))
               = (engines w)(r := foldl (\<lambda>e m. snd (ins m e)) (engines w r) (group gm)))
       \<or> (\<exists>e. fst (Start ins sync gm (Some r) (Some k) w) = Some (External e)
           \<and> L = [(SyncOp k, Some e)]
           \<and> fst (sync (engines w) (trackers w k)) = Some e
           \<and> snd (snd (Start ins sync gm (Some r) (Some k) w)) = do_sync sync k w)
       \<or> (\<exists>j e wj. j < length (group gm)
           \<and> fst (Start ins sync gm (Some r) (Some k) w) = Some (External e)
           \<and> L = succeeded (bootstrap_calls r k (take j (group gm)))
                 @ [(InsertOp r (group gm ! j), Some e)]
           \<and> run_calls ins sync (bootstrap_calls r k (take j (group gm))) w = (None, wj)
           \<and> engines wj
               = (engines w)(r := foldl (\<lambda>e m. snd (ins m e)) (engines w r) (take j (group gm)))
           \<and> fst (ins (group gm ! j) (engines wj r)) = Some e
           \<and> snd (snd (Start ins sync gm (Some r) (Some k) w)) = do_insert ins r (group gm ! j) wj)
       \<or> (\<exists>j e wj. j < length (group gm)
           \<and> fst (Start ins sync gm (Some r) (Some k) w) = Some (External e)
           \<and> L = succeeded (bootstrap_calls r k (take j (group gm)))
                 @ [(InsertOp r (group gm ! j), None), (SyncOp k, Some e)]
           \<and> run_calls ins sync (bootstrap_calls r k (take j (group gm))) w = (None, wj)
           \<and> engines wj
               = (engines w)(r := foldl (\<lambda>e m. snd (ins m e)) (engines w r) (take j (group gm)))
           \<and> fst (ins (group gm ! j) (engines wj r)) = None
           \<and> fst (sync (engines (do_insert ins r (group gm ! j) wj))
                    (trackers (do_insert ins r (group gm ! j) wj) k)) = Some e
           \<and> snd (snd (Start ins sync gm (Some r) (Some k) w))
               = do_sync sync k (do_insert ins r (group gm ! j) wj)) )"
proof -
  let ?G = "group gm"
  let ?S = "Start ins sync gm (Some r) (Some k) w"
  let ?w1 = "do_sync sync k w"
  let ?f = "\<lambda>e m. snd (ins m e)"
  have R: "(fst ?S, snd (snd ?S)) = run_calls ins sync (bootstrap_calls r k ?G) w"
    by (rule Start_run_calls)
  show ?thesis
  proof (cases "fst (sync (engines w) (trackers w k))")
    case (Some e)
    have "run_calls ins sync (bootstrap_calls r k ?G) w = (Some (External e), ?w1)"
      using Some by (simp add: run_bootstrap_calls)
    with R have res: "fst ?S = Some (External e)" and st: "snd (snd ?S) = ?w1" by simp_all
    have "calls (snd (snd ?S)) = calls w @ [(SyncOp k, Some e)]"
      using Some by (simp only: st do_sync_fields)
    with R res st Some show ?thesis by blast
  next
    case None
    note s0 = this
    have e1: "engines ?w1 = engines w" by (simp add: do_sync_fields)
    have c1: "calls ?w1 = calls w @ [(SyncOp k, None)]" using None by (simp add: do_sync_fields)
    have boot: "\<And>xs. run_calls ins sync (bootstrap_calls r k xs) w
                  = run_calls ins sync (member_calls r k xs) ?w1"
      using None by (simp add: run_bootstrap_calls)
    let ?lp = "run_calls ins sync (member_calls r k ?G) ?w1"
    have R2: "?lp = (fst ?S, snd (snd ?S))" using R by (simp only: boot)
    have res: "fst ?S = fst ?lp" by (simp only: R2 fst_conv)
    have st: "snd (snd ?S) = snd ?lp" by (simp only: R2 snd_conv)
    show ?thesis
    proof (cases "fst ?lp")
      case None
      note ok = run_member_calls_ok [OF None]
      have cs: "calls (snd (snd ?S)) = calls w @ succeeded (bootstrap_calls r k ?G)"
        by (simp only: st ok [THEN conjunct1] c1) (simp add: succeeded_def bootstrap_calls_def)
      have en: "engines (snd (snd ?S)) = (engines w)(r := foldl ?f (engines w r) ?G)"
        by (simp only: st ok [THEN conjunct2] e1)
      have n1: "length (filter is_insert (succeeded (bootstrap_calls r k ?G) :: (op \<times> 'x option) list))
                = length ?G"
        using count_member_calls [of r k ?G, where 'x = 'x]
        by (simp add: succeeded_def bootstrap_calls_def)
      have n2: "length (filter is_sync (succeeded (bootstrap_calls r k ?G) :: (op \<times> 'x option) list))
                = length ?G + 1"
        using count_member_calls [of r k ?G, where 'x = 'x]
        by (simp add: succeeded_def bootstrap_calls_def)
      have r0: "fst ?S = None" using None by (simp only: res)
      from cs R r0 n1 n2 en show ?thesis by blast
    next
      case (Some x)
      from run_member_calls_failed [OF Some] obtain j e wj where
        j: "j < length ?G" "x = External e"
           "run_calls ins sync (member_calls r k (take j ?G)) ?w1 = (None, wj)"
        and d: "(fst (ins (?G ! j) (engines wj r)) = Some e
            \<and> snd ?lp = do_insert ins r (?G ! j) wj)
          \<or> (fst (ins (?G ! j) (engines wj r)) = None
            \<and> fst (sync (engines (do_insert ins r (?G ! j) wj))
                     (trackers (do_insert ins r (?G ! j) wj) k)) = Some e
            \<and> snd ?lp = do_sync sync k (do_insert ins r (?G ! j) wj))"
        by blast
      have r0: "fst ?S = Some (External e)" using Some j(2) by (simp only: res)
      have pre: "run_calls ins sync (bootstrap_calls r k (take j ?G)) w = (None, wj)"
        using j(3) by (simp only: boot)
      have "fst (run_calls ins sync (member_calls r k (take j ?G)) ?w1) = None"
        using j(3) by simp
      note ok = run_member_calls_ok [OF this]
      have cj: "calls wj = calls w @ succeeded (bootstrap_calls r k (take j ?G))"
        using ok [THEN conjunct1] by (simp only: j(3) snd_conv c1) (simp add: succeeded_def bootstrap_calls_def)
      have ej: "engines wj = (engines w)(r := foldl ?f (engines w r) (take j ?G))"
        using ok [THEN conjunct2] by (simp only: j(3) snd_conv e1)
      from d show ?thesis
      proof
        assume a: "fst (ins (?G ! j) (engines wj r)) = Some e
            \<and> snd ?lp = do_insert ins r (?G ! j) wj"
        then have w': "snd (snd ?S) = do_insert ins r (?G ! j) wj" by (simp only: st)
        have "calls (snd (snd ?S)) = calls w @ (succeeded (bootstrap_calls r k (take j ?G))
                 @ [(InsertOp r (?G ! j), Some e)])"
          using a by (simp only: w' do_insert_fields cj) simp
        with R j(1) r0 pre ej a w' show ?thesis by blast
      next
        assume a: "fst (ins (?G ! j) (engines wj r)) = None
            \<and> fst (sync (engines (do_insert ins r (?G ! j) wj))
                     (trackers (do_insert ins r (?G ! j) wj) k)) = Some e
            \<and> snd ?lp = do_sync sync k (do_insert ins r (?G ! j) wj)"
        then have w': "snd (snd ?S) = do_sync sync k (do_insert ins r (?G ! j) wj)"
          by (simp only: st)
        have "calls (snd (snd ?S)) = calls w @ (succeeded (bootstrap_calls r k (take j ?G))
                 @ [(InsertOp r (?G ! j), None), (SyncOp k, Some e)])"
          using a by (simp only: w' do_sync_fields do_insert_fields cj) simp
        with R j(1) r0 pre ej a w' show ?thesis by blast
      qed
    qed
  qed
qed

text \<open>
  Four runs: a group of two on an instance with room for two; a group of three on the
  same instance, where the third insert fails; a group of two with a tracker whose sync
  fails after the first insert; and a start on a store in which the first sync fails.
\<close>

theorem Start_call_sequence_witness:
  "fst (Start (capped_ins 2) counting_sync (fresh_manager [[1], [2]]) (Some 0) (Some 0) empty_world) = None
   \<and> calls (snd (snd (Start (capped_ins 2) counting_sync (fresh_manager [[1], [2]]) (Some 0) (Some 0) empty_world)))
     = succeeded (bootstrap_calls 0 0 [[1], [2]])
   \<and> engines (snd (snd (Start (capped_ins 2) counting_sync (fresh_manager [[1], [2]]) (Some 0) (Some 0) empty_world))) 0
     = [[1], [2]]
   \<and> trackers (snd (snd (Start (capped_ins 2) counting_sync (fresh_manager [[1], [2]]) (Some 0) (Some 0) empty_world))) 0
     = [2, 1, 0]
   \<and> fst (Start (capped_ins 2) counting_sync (fresh_manager [[1], [2], [3]]) (Some 0) (Some 0) empty_world)
     = Some (External ''tree is full'')
   \<and> calls (snd (snd (Start (capped_ins 2) counting_sync (fresh_manager [[1], [2], [3]]) (Some 0) (Some 0) empty_world)))
     = succeeded (bootstrap_calls 0 0 [[1], [2]]) @ [(InsertOp 0 [3], Some ''tree is full'')]
   \<and> engines (snd (snd (Start (capped_ins 2) counting_sync (fresh_manager [[1], [2], [3]]) (Some 0) (Some 0) empty_world))) 0
     = [[1], [2]]
   \<and> fst (Start (capped_ins 5) failing_sync (fresh_manager [[1], [2]]) (Some 0) (Some 0) empty_world)
     = Some (External ''no root'')
   \<and> calls (snd (snd (Start (capped_ins 5) failing_sync (fresh_manager [[1], [2]]) (Some 0) (Some 0) empty_world)))
     = succeeded (bootstrap_calls 0 0 []) @ [(InsertOp 0 [1], None), (SyncOp 0, Some ''no root'')]
   \<and> engines (snd (snd (Start (capped_ins 5) failing_sync (fresh_manager [[1], [2]]) (Some 0) (Some 0) empty_world))) 0
     = [[1]]
   \<and> fst (Start (capped_ins 5) failing_sync (fresh_manager [[3]]) (Some 0) (Some 0) started_world)
     = Some (External ''no root'')
   \<and> calls (snd (snd (Start (capped_ins 5) failing_sync (fresh_manager [[3]]) (Some 0) (Some 0) started_world)))
     = calls started_world @ [(SyncOp 0, Some ''no root'')]
   \<and> engines (snd (snd (Start (capped_ins 5) failing_sync (fresh_manager [[3]]) (Some 0) (Some 0) started_world))) 0
     = [[1], [2]]"
  using Start_call_sequence [of "capped_ins 2" counting_sync "fresh_manager [[1], [2]]" 0 0 empty_world]
    Start_call_sequence [of "capped_ins 2" counting_sync "fresh_manager [[1], [2], [3]]" 0 0 empty_world]
    Start_call_sequence [of "capped_ins 5" failing_sync "fresh_manager [[1], [2]]" 0 0 empty_world]
    Start_call_sequence [of "capped_ins 5" failing_sync "fresh_manager [[3]]" 0 0 started_world]
  by (simp (no_asm) add: run_ok_error run_ok_calls run_ok_engine run_ok_tracker
        run_full_error run_full_calls run_full_engine
        run_sync_error run_sync_calls run_sync_engine
        run_first_error run_first_calls run_first_engine
        succeeded_def bootstrap_calls_def member_calls_def)

text \<open>
  Claim C8. Whatever \<^verbatim>\<open>Start\<close> returns, it leaves the stored credential and the stored
  index as they were. When it returns no error the stored group is empty afterwards;
  when it returns an error the stored group is the one it had before.
\<close>

theorem Start_group_discarded:
  "identityCredential (fst (snd (Start ins sync gm ri tr w))) = identityCredential gm
   \<and> membershipIndex (fst (snd (Start ins sync gm ri tr w))) = membershipIndex gm
   \<and> (fst (Start ins sync gm ri tr w) = None \<longrightarrow> group (fst (snd (Start ins sync gm ri tr w))) = [])
   \<and> (fst (Start ins sync gm ri tr w) \<noteq> None \<longrightarrow>
        group (fst (snd (Start ins sync gm ri tr w))) = group gm)"
  by (simp add: Start_manager)

text \<open>The two runs above: the group of two is discarded, the group of three is kept.\<close>

theorem Start_group_discarded_witness:
  "fst (Start (capped_ins 2) counting_sync (fresh_manager [[1], [2]]) (Some 0) (Some 0) empty_world) = None
   \<and> group (fresh_manager [[1], [2]]) = [[1], [2]]
   \<and> group (fst (snd (Start (capped_ins 2) counting_sync (fresh_manager [[1], [2]]) (Some 0) (Some 0) empty_world))) = []
   \<and> identityCredential (fst (snd (Start (capped_ins 2) counting_sync (fresh_manager [[1], [2]]) (Some 0) (Some 0) empty_world)))
       = Some local_credential
   \<and> membershipIndex (fst (snd (Start (capped_ins 2) counting_sync (fresh_manager [[1], [2]]) (Some 0) (Some 0) empty_world)))
       = Some 1
   \<and> fst (Start (capped_ins 2) counting_sync (fresh_manager [[1], [2], [3]]) (Some 0) (Some 0) empty_world) \<noteq> None
   \<and> group (fst (snd (Start (capped_ins 2) counting_sync (fresh_manager [[1], [2], [3]]) (Some 0) (Some 0) empty_world)))
       = [[1], [2], [3]]"
  using Start_group_discarded [of "capped_ins 2" counting_sync "fresh_manager [[1], [2]]" "Some 0" "Some 0" empty_world]
    Start_group_discarded [of "capped_ins 2" counting_sync "fresh_manager [[1], [2], [3]]" "Some 0" "Some 0" empty_world]
    fresh_manager_fields [of "[[1], [2]]"] fresh_manager_fields [of "[[1], [2], [3]]"]
  by (simp add: run_ok_error run_full_error)

subsection \<open>InsertMember\<close>

text \<open>
  Claim C4. For a manager that has been started (\<^verbatim>\<open>Start\<close> stores both pointers, see
  \<open>Start_manager\<close>) and a commitment \<open>c\<close>: if the insert into the RLN instance returns
  an error, \<^verbatim>\<open>InsertMember\<close> returns that error, the insert is the only call made, the
  store is the one the insert left and no tracker has changed; if the insert returns no
  error, exactly one sync follows it, on the store the insert left, \<^verbatim>\<open>InsertMember\<close>
  returns what that sync returned, and the store holds the instance as the insert left
  it and the tracker as the sync left it.
\<close>

theorem InsertMember_calls:
  fixes w :: "('e, 't, 'x) world"
  assumes "rln gm = Some r" and "rootTracker gm = Some k"
  shows "(\<forall>e. fst (ins c (engines w r)) = Some e \<longrightarrow>
            fst (InsertMember ins sync gm c w) = Some (External e)
          \<and> calls (snd (InsertMember ins sync gm c w)) = calls w @ [(InsertOp r c, Some e)]
          \<and> trackers (snd (InsertMember ins sync gm c w)) = trackers w
          \<and> engines (snd (InsertMember ins sync gm c w))
              = (engines w)(r := snd (ins c (engines w r)))
          \<and> snd (InsertMember ins sync gm c w) = do_insert ins r c w)
       \<and> (fst (ins c (engines w r)) = None \<longrightarrow>
            (\<exists>res. calls (snd (InsertMember ins sync gm c w))
                      = calls w @ [(InsertOp r c, None), (SyncOp k, res)]
                  \<and> res = fst (sync ((engines w)(r := snd (ins c (engines w r)))) (trackers w k))
                  \<and> fst (InsertMember ins sync gm c w) = map_option External res
                  \<and> engines (snd (InsertMember ins sync gm c w))
                      = (engines w)(r := snd (ins c (engines w r)))
                  \<and> trackers (snd (InsertMember ins sync gm c w))
                      = (trackers w)(k := snd (sync ((engines w)(r := snd (ins c (engines w r))))
                                                   (trackers w k)))
                  \<and> snd (InsertMember ins sync gm c w) = do_sync sync k (do_insert ins r c w)))"
  using assms
  by (auto simp: InsertMember_def rln_InsertMember_Some rootTracker_Sync_Some
                 do_insert_def do_sync_def
           split: prod.split option.split)

text \<open>On the started manager: an insert into a full instance, an insert followed by a
  failing sync, and an insert followed by a successful sync.\<close>

theorem InsertMember_calls_witness:
  "rln started_manager = Some 0 \<and> rootTracker started_manager = Some 0
   \<and> fst (capped_ins 2 [3] (engines started_world 0)) = Some ''tree is full''
   \<and> fst (InsertMember (capped_ins 2) counting_sync started_manager [3] started_world)
       = Some (External ''tree is full'')
   \<and> calls (snd (InsertMember (capped_ins 2) counting_sync started_manager [3] started_world))
       = calls started_world @ [(InsertOp 0 [3], Some ''tree is full'')]
   \<and> trackers (snd (InsertMember (capped_ins 2) counting_sync started_manager [3] started_world))
       = trackers started_world
   \<and> engines (snd (InsertMember (capped_ins 2) counting_sync started_manager [3] started_world)) 0
       = [[1], [2]]
   \<and> fst (capped_ins 3 [3] (engines started_world 0)) = None
   \<and> fst (InsertMember (capped_ins 3) failing_sync started_manager [3] started_world)
       = Some (External ''no root'')
   \<and> calls (snd (InsertMember (capped_ins 3) failing_sync started_manager [3] started_world))
       = calls started_world @ [(InsertOp 0 [3], None), (SyncOp 0, Some ''no root'')]
   \<and> engines (snd (InsertMember (capped_ins 3) failing_sync started_manager [3] started_world)) 0
       = [[1], [2], [3]]
   \<and> trackers (snd (InsertMember (capped_ins 3) failing_sync started_manager [3] started_world)) 0
       = [2, 1, 0]
   \<and> fst (InsertMember (capped_ins 3) counting_sync started_manager [3] started_world) = None
   \<and> calls (snd (InsertMember (capped_ins 3) counting_sync started_manager [3] started_world))
       = calls started_world @ [(InsertOp 0 [3], None), (SyncOp 0, None)]
   \<and> engines (snd (InsertMember (capped_ins 3) counting_sync started_manager [3] started_world)) 0
       = [[1], [2], [3]]
   \<and> trackers (snd (InsertMember (capped_ins 3) counting_sync started_manager [3] started_world)) 0
       = [3, 2, 1, 0]"
proof -
  have m: "rln started_manager = Some 0" "rootTracker started_manager = Some 0"
    by (simp_all add: started_manager_eq)
  have full: "fst (capped_ins 2 [3] (engines started_world 0)) = Some ''tree is full''"
    "snd (capped_ins 2 [3] (engines started_world 0)) = [[1], [2]]"
    by (simp_all add: started_world_engine capped_ins_def)
  have room: "fst (capped_ins 3 [3] (engines started_world 0)) = None"
    "snd (capped_ins 3 [3] (engines started_world 0)) = [[1], [2], [3]]"
    by (simp_all add: started_world_engine capped_ins_def)
  have nr: "failing_sync ((engines started_world)(0 := [[1], [2], [3]])) (trackers started_world 0)
              = (Some ''no root'', [2, 1, 0])"
    by (simp add: failing_sync_def started_world_tracker)
  have cs: "counting_sync ((engines started_world)(0 := [[1], [2], [3]])) (trackers started_world 0)
              = (None, [3, 2, 1, 0])"
    by (simp add: counting_sync_def started_world_tracker)
  show ?thesis
    using InsertMember_calls [OF m, of "capped_ins 2" "[3]" started_world counting_sync]
      InsertMember_calls [OF m, of "capped_ins 3" "[3]" started_world failing_sync]
      InsertMember_calls [OF m, of "capped_ins 3" "[3]" started_world counting_sync]
    by (simp add: m full room nr cs do_insert_fields do_sync_fields)
qed

subsection \<open>Accessors\<close>

text \<open>
  Claim C7. On a manager returned by \<^verbatim>\<open>NewStaticGroupManager\<close>, also after a
  \<^verbatim>\<open>Start\<close>, \<^verbatim>\<open>IdentityCredentials\<close> and \<^verbatim>\<open>MembershipIndex\<close> return the credential
  and the index given to the constructor, without error. On any manager, each of the two
  returns an error exactly when its field is unset.
\<close>

theorem accessors_after_construction:
  assumes "(NewStaticGroupManager G C i :: 'x error + StaticGroupManager) = Inr gm"
  shows "(IdentityCredentials gm :: 'x error + IdentityCredential) = Inr C
       \<and> (MembershipIndex gm :: 'x error + MembershipIndex) = Inr i
       \<and> (IdentityCredentials (fst (snd (Start ins sync gm ri tr w))) :: 'x error + IdentityCredential) = Inr C
       \<and> (MembershipIndex (fst (snd (Start ins sync gm ri tr w))) :: 'x error + MembershipIndex) = Inr i
       \<and> (\<forall>m. (\<exists>e. (IdentityCredentials m :: 'x error + IdentityCredential) = Inl e) \<longleftrightarrow> identityCredential m = None)
       \<and> (\<forall>m. (\<exists>e. (MembershipIndex m :: 'x error + MembershipIndex) = Inl e) \<longleftrightarrow> membershipIndex m = None)"
proof -
  have f: "identityCredential gm = Some C" "membershipIndex gm = Some i"
    using assms by (auto simp: NewStaticGroupManager_def Let_def split: if_splits)
  show ?thesis
    by (auto simp: f Start_manager IdentityCredentials_def MembershipIndex_def split: option.splits)
qed

text \<open>The manager constructed for the second member of a group of two.\<close>

theorem accessors_after_construction_witness:
  "(NewStaticGroupManager [[1], [2]] local_credential 1 :: string error + StaticGroupManager)
     = Inr (fresh_manager [[1], [2]])
   \<and> (IdentityCredentials (fresh_manager [[1], [2]]) :: string error + IdentityCredential) = Inr local_credential
   \<and> (MembershipIndex (fresh_manager [[1], [2]]) :: string error + MembershipIndex) = Inr 1"
  using construct_fresh_manager [where 'x = string]
    accessors_after_construction [OF construct_fresh_manager [where 'x = string], of "capped_ins 2" counting_sync None None empty_world]
  by simp

subsection \<open>Signals and proofs\<close>

lemma byte_of_char_inj: "byte_of_char c = byte_of_char d \<Longrightarrow> c = d"
proof -
  assume "byte_of_char c = byte_of_char d"
  then have "unat (byte_of_char c) = unat (byte_of_char d)" by simp
  then have "(of_char c :: nat) mod 256 = of_char d mod 256"
    by (simp add: byte_of_char_def unat_of_nat)
  then have "(of_char c :: nat) = of_char d" by simp
  then show "c = d" by simp
qed

lemma bytes_of_string_inj: "bytes_of_string s = bytes_of_string t \<Longrightarrow> s = t"
  unfolding bytes_of_string_def
  by (rule injD [OF inj_mapI [OF injI]]) (auto dest: byte_of_char_inj)

lemma and_then_Inr:
  "and_then r f = Inr y \<longleftrightarrow> (\<exists>a. r = Inr a \<and> f a = Inr y)"
  by (cases r) (simp_all add: and_then_def)

text \<open>
  Claim C3. The signal of a message is its payload followed by the bytes of its content
  topic, with nothing in between. Messages with the same payload and topic have the same
  signal; with the same topic, different payloads give different signals; with the same
  payload, different topics give different signals.
\<close>

theorem toRLNSignal_concatenation:
  "toRLNSignal (Some m) = Payload m @ bytes_of_string (ContentTopic m)
   \<and> (Payload m1 = Payload m2 \<and> ContentTopic m1 = ContentTopic m2 \<longrightarrow>
        toRLNSignal (Some m1) = toRLNSignal (Some m2))
   \<and> (ContentTopic m1 = ContentTopic m2 \<and> Payload m1 \<noteq> Payload m2 \<longrightarrow>
        toRLNSignal (Some m1) \<noteq> toRLNSignal (Some m2))
   \<and> (Payload m1 = Payload m2 \<and> ContentTopic m1 \<noteq> ContentTopic m2 \<longrightarrow>
        toRLNSignal (Some m1) \<noteq> toRLNSignal (Some m2))"
  by (auto simp: toRLNSignal_def Let_def dest: bytes_of_string_inj)

text \<open>The payload \<open>hi\<close> on the topic \<open>/t\<close>, against another topic and another payload.\<close>

theorem toRLNSignal_concatenation_witness:
  "toRLNSignal (Some hello_message) = [104, 105, 47, 116]
   \<and> Payload hello_message = Payload (hello_message\<lparr> ContentTopic := ''/u'' \<rparr>)
   \<and> ContentTopic hello_message \<noteq> ContentTopic (hello_message\<lparr> ContentTopic := ''/u'' \<rparr>)
   \<and> toRLNSignal (Some hello_message) \<noteq> toRLNSignal (Some (hello_message\<lparr> ContentTopic := ''/u'' \<rparr>))
   \<and> ContentTopic hello_message = ContentTopic (hello_message\<lparr> Payload := [104] \<rparr>)
   \<and> Payload hello_message \<noteq> Payload (hello_message\<lparr> Payload := [104] \<rparr>)
   \<and> toRLNSignal (Some hello_message) \<noteq> toRLNSignal (Some (hello_message\<lparr> Payload := [104] \<rparr>))"
  using toRLNSignal_concatenation [of hello_message hello_message "hello_message\<lparr> ContentTopic := ''/u'' \<rparr>"]
    toRLNSignal_concatenation [of hello_message hello_message "hello_message\<lparr> Payload := [104] \<rparr>"]
  by (simp add: hello_message_def bytes_of_string_def byte_of_char_def toRLNSignal_def)

text \<open>
  Claim C9. \<^verbatim>\<open>toRateLimitProof\<close> returns \<^verbatim>\<open>nil\<close> exactly when the message is \<^verbatim>\<open>nil\<close>
  or carries no proof, and \<^verbatim>\<open>toRLNSignal\<close> of a \<^verbatim>\<open>nil\<close> message is the empty byte
  sequence.
\<close>

theorem toRateLimitProof_nil:
  "((toRateLimitProof Bytes128 Bytes32 msg :: 'x error + rln_RateLimitProof option) = Inr None
      \<longleftrightarrow> (msg = None \<or> (\<exists>m. msg = Some m \<and> RateLimitProof m = None)))
   \<and> toRLNSignal None = []"
  by (auto simp: toRateLimitProof_def toRLNSignal_def and_then_Inr split: option.splits)

text \<open>No message, a message without a proof, and a message with one.\<close>

theorem toRateLimitProof_nil_witness:
  "(toRateLimitProof Inr Inr None :: string error + rln_RateLimitProof option) = Inr None
   \<and> RateLimitProof hello_message = None
   \<and> (toRateLimitProof Inr Inr (Some hello_message) :: string error + rln_RateLimitProof option) = Inr None
   \<and> (toRateLimitProof Inr Inr (Some (hello_message\<lparr> RateLimitProof := Some
          \<lparr> pb_Proof = [1], pb_MerkleRoot = [2], pb_Epoch = [3], pb_ShareX = [4], pb_ShareY = [5],
            pb_Nullifier = [6], pb_RlnIdentifier = [7] \<rparr> \<rparr>))
        :: string error + rln_RateLimitProof option) \<noteq> Inr None"
  using toRateLimitProof_nil [where 'x = string, of Inr Inr None]
    toRateLimitProof_nil [where 'x = string, of Inr Inr "Some hello_message"]
    toRateLimitProof_nil [where 'x = string, of Inr Inr "Some (hello_message\<lparr> RateLimitProof := Some
          \<lparr> pb_Proof = [1], pb_MerkleRoot = [2], pb_Epoch = [3], pb_ShareX = [4], pb_ShareY = [5],
            pb_Nullifier = [6], pb_RlnIdentifier = [7] \<rparr> \<rparr>)"]
  by (simp add: hello_message_def)

subsection \<open>Epochs\<close>

lemma maxEpochGap_div: "maxEpochGap E = int (20 div unat E)"
proof -
  let ?q = "maxClockGapSeconds div E"
  have q: "unat ?q = 20 div unat E"
    by (simp add: maxClockGapSeconds_def unat_div)
  have "20 div unat E \<le> 20" by (rule div_le_dividend)
  then have "unat ?q \<le> 20" by (simp only: q)
  then have "int (unat ?q) \<le> int 20" by (simp only: of_nat_le_iff)
  then have "uint ?q \<le> 20" by simp
  then have "uint ?q < 2 ^ 63" by simp
  then have "sint ?q = uint ?q" by (rule sint_of_small)
  also have "\<dots> = int (unat ?q)" by simp
  finally show ?thesis by (simp only: maxEpochGap_def q)
qed

text \<open>
  Claim C5. \<^verbatim>\<open>maxEpochGap\<close> is the clock tolerance of 20 seconds divided by the length of
  an epoch in seconds, rounded down.
\<close>

theorem maxEpochGap_floor:
  assumes "EPOCH_UNIT_SECONDS \<noteq> 0"
  shows "maxEpochGap EPOCH_UNIT_SECONDS = \<lfloor>(20 :: real) / real (unat EPOCH_UNIT_SECONDS)\<rfloor>
         \<and> unat maxClockGapSeconds = 20"
proof -
  have "\<lfloor>real 20 / real (unat EPOCH_UNIT_SECONDS)\<rfloor> = int (20 div unat EPOCH_UNIT_SECONDS)"
    by (rule floor_divide_of_nat_eq)
  then have "\<lfloor>(20 :: real) / real (unat EPOCH_UNIT_SECONDS)\<rfloor> = maxEpochGap EPOCH_UNIT_SECONDS"
    by (simp only: maxEpochGap_div) simp
  moreover have "unat maxClockGapSeconds = 20" by (simp add: maxClockGapSeconds_def)
  ultimately show ?thesis by simp
qed

text \<open>With epochs of 10 seconds the gap is 2.\<close>

theorem maxEpochGap_floor_witness:
  "(10 :: 64 word) \<noteq> 0 \<and> maxEpochGap 10 = \<lfloor>(20 :: real) / real (unat (10 :: 64 word))\<rfloor>
   \<and> maxEpochGap 10 = 2"
  using maxEpochGap_floor [of 10] by simp

text \<open>
  Claim C6. When the distance between the epoch of the proof and the current epoch is
  exactly \<^verbatim>\<open>maxEpochGap\<close>, the epoch tolerance step lets the validation proceed to the
  later steps; when it is \<^verbatim>\<open>maxEpochGap + 1\<close>, the message is classified invalid and
  the verification has not been called.
\<close>

theorem epoch_tolerance_boundary:
  "(epoch_distance (epoch_number (Epoch p)) currentEpoch = maxEpochGap E \<longrightarrow>
      epoch_tolerance E (epoch_number (Epoch p)) currentEpoch = None
    \<and> validate_message E epoch_number is_acceptable verify rate_exceeded msg p currentEpoch
        = after_epoch_tolerance is_acceptable verify rate_exceeded p (toRLNSignal (Some msg)))
   \<and> (epoch_distance (epoch_number (Epoch p)) currentEpoch = maxEpochGap E + 1 \<longrightarrow>
      epoch_tolerance E (epoch_number (Epoch p)) currentEpoch = Some invalidMessage
    \<and> validate_message E epoch_number is_acceptable verify rate_exceeded msg p currentEpoch
        = (invalidMessage, 0))"
  by (simp add: validate_message_def epoch_tolerance_def Let_def)

text \<open>Epochs of 10 seconds and a proof at epoch 5, seen at epoch 3 and at epoch 2.\<close>

theorem epoch_tolerance_boundary_witness:
  "epoch_distance (first_byte (Epoch (proof_at_epoch 5))) 3 = maxEpochGap 10
   \<and> validate_message 10 first_byte (\<lambda>root. True) (\<lambda>p signal. Inr True :: string + bool) (\<lambda>p. False)
        hello_message (proof_at_epoch 5) 3 = (validMessage, 1)
   \<and> epoch_distance (first_byte (Epoch (proof_at_epoch 5))) 2 = maxEpochGap 10 + 1
   \<and> validate_message 10 first_byte (\<lambda>root. True) (\<lambda>p signal. Inr True :: string + bool) (\<lambda>p. False)
        hello_message (proof_at_epoch 5) 2 = (invalidMessage, 0)"
proof -
  have g: "maxEpochGap 10 = 2" by (simp add: maxEpochGap_div)
  have d3: "epoch_distance (first_byte (Epoch (proof_at_epoch 5))) 3 = maxEpochGap 10"
    by (simp add: g epoch_distance_def first_byte_def proof_at_epoch_def)
  have d2: "epoch_distance (first_byte (Epoch (proof_at_epoch 5))) 2 = maxEpochGap 10 + 1"
    by (simp add: g epoch_distance_def first_byte_def proof_at_epoch_def)
  show ?thesis
    using d3 d2
      epoch_tolerance_boundary [of first_byte "proof_at_epoch 5" 3 10 "\<lambda>root. True"
        "\<lambda>p signal. Inr True :: string + bool" "\<lambda>p. False" hello_message]
      epoch_tolerance_boundary [of first_byte "proof_at_epoch 5" 2 10 "\<lambda>root. True"
        "\<lambda>p signal. Inr True :: string + bool" "\<lambda>p. False" hello_message]
    by (simp add: after_epoch_tolerance_def)
qed

end
